theory Spec2Isabelle
  imports Main
begin

section \<open>Strings as Python sees them\<close>

text \<open>
  Query texts, column names and cells are Python \<open>str\<close> values; they are modelled as
  \<open>string\<close>, with the characters of the first 256 code points. \<open>str.isspace\<close>,
  \<open>str.strip\<close>, \<open>str.upper\<close>, \<open>in\<close> and \<open>str.find\<close> are written out below.
  \<open>upper\<close> can lengthen a text (the sharp s, U+00DF, becomes \<open>SS\<close>) and can leave
  the range (the capitals of the micro sign U+00B5 and of U+00FF are U+039C and
  U+0178), so an upper-cased text is a list of code points.
\<close>

definition isspace :: "char \<Rightarrow> bool" where
  "isspace c = (c \<in> {CHR 0x09, CHR 0x0A, CHR 0x0B, CHR 0x0C, CHR 0x0D,
                      CHR 0x1C, CHR 0x1D, CHR 0x1E, CHR 0x1F, CHR 0x20, CHR 0x85, CHR 0xA0})"

definition lstrip :: "string \<Rightarrow> string" where
  "lstrip s = dropWhile isspace s"

definition rstrip :: "string \<Rightarrow> string" where
  "rstrip s = rev (dropWhile isspace (rev s))"

definition strip :: "string \<Rightarrow> string" where
  "strip s = rstrip (lstrip s)"

definition codes :: "string \<Rightarrow> nat list" where
  "codes s = map of_char s"

text \<open>
  \<open>c.upper()\<close> for one character: the letters \<open>a\<close> to \<open>z\<close> and the Latin-1 small
  letters U+00E0 to U+00FE (the division sign U+00F7 is no letter) move down by 32;
  the sharp s gives two letters; every other character is its own capital.
\<close>

definition upper_char :: "char \<Rightarrow> nat list" where
  "upper_char c =
     (let n = of_char c :: nat
      in if 97 \<le> n \<and> n \<le> 122 then [n - 32]
         else if n = 181 then [924]
         else if n = 223 then [83, 83]
         else if 224 \<le> n \<and> n \<le> 254 \<and> n \<noteq> 247 then [n - 32]
         else if n = 255 then [376]
         else [n])"

definition str_upper :: "string \<Rightarrow> nat list" where
  "str_upper s = concat (map upper_char s)"

text \<open>
  \<open>find_idx sub s\<close> is the lowest index at which \<open>sub\<close> occurs in \<open>s\<close>;
  \<open>str_find sub s start\<close> is \<open>s.find(sub, start)\<close> with \<open>None\<close> for \<open>-1\<close>;
  \<open>upper_find sub u start\<close> and \<open>contains sub u\<close> are \<open>u.find(sub, start)\<close> and
  \<open>sub in u\<close> for an upper-cased text \<open>u\<close>.
\<close>

fun find_idx :: "'a list \<Rightarrow> 'a list \<Rightarrow> nat option" where
  "find_idx sub [] = (if sub = [] then Some 0 else None)"
| "find_idx sub (x # xs) =
     (if take (length sub) (x # xs) = sub then Some 0 else map_option Suc (find_idx sub xs))"

definition str_find :: "string \<Rightarrow> string \<Rightarrow> nat \<Rightarrow> nat option" where
  "str_find sub s start =
     (if start \<le> length s then map_option (\<lambda>i. i + start) (find_idx sub (drop start s))
      else None)"

definition upper_find :: "string \<Rightarrow> nat list \<Rightarrow> nat \<Rightarrow> nat option" where
  "upper_find sub u start =
     (if start \<le> length u then map_option (\<lambda>i. i + start) (find_idx (codes sub) (drop start u))
      else None)"

definition contains :: "string \<Rightarrow> nat list \<Rightarrow> bool" where
  "contains sub u = (find_idx (codes sub) u \<noteq> None)"

definition dq :: string where
  "dq = [CHR 0x22]"

section \<open>time\_range.py\<close>

text \<open>
  A \<open>datetime\<close> is its broken-down fields. \<open>strftime\<close> renders \<open>%Y\<close> with four
  digits and \<open>%m %d %H %M %S\<close> with two, \<open>%f\<close> with six, all zero-padded.
\<close>

record datetime =
  year :: nat
  month :: nat
  day :: nat
  hour :: nat
  minute :: nat
  second :: nat
  microsecond :: nat

definition digit :: "nat \<Rightarrow> char" where
  "digit d = ''0123456789'' ! d"

fun dec :: "nat \<Rightarrow> string" where
  "dec n = (if n < 10 then [digit n] else dec (n div 10) @ [digit (n mod 10)])"

declare dec.simps [simp del]

definition zpad :: "nat \<Rightarrow> string \<Rightarrow> string" where
  "zpad w s = replicate (w - length s) (CHR ''0'') @ s"

text \<open>\<open>dt.strftime('%Y-%m-%dT%H:%M:%S')\<close>\<close>

definition strftime_seconds :: "datetime \<Rightarrow> string" where
  "strftime_seconds dt =
     zpad 4 (dec (year dt)) @ ''-'' @ zpad 2 (dec (month dt)) @ ''-'' @ zpad 2 (dec (day dt))
     @ ''T'' @ zpad 2 (dec (hour dt)) @ '':'' @ zpad 2 (dec (minute dt)) @ '':''
     @ zpad 2 (dec (second dt))"

text \<open>\<open>dt.strftime('%Y-%m-%dT%H:%M:%S.%f')\<close>\<close>

definition strftime_micro :: "datetime \<Rightarrow> string" where
  "strftime_micro dt = strftime_seconds dt @ ''.'' @ zpad 6 (dec (microsecond dt))"

text \<open>
  \<open>dt.strftime('%Y-%m-%dT%H:%M:%S.%f')[:-3] + 'Z'\<close>: the expression that
  \<open>TimeRange.to_elasticsearch_format\<close>, \<open>ESClient.search_kql\<close> and
  \<open>ESClient.query_esql\<close> all use. The slice \<open>s[:-3]\<close> keeps the first
  \<open>len(s) - 3\<close> characters (none when \<open>s\<close> is shorter than that).
\<close>

definition es_timestamp :: "datetime \<Rightarrow> string" where
  "es_timestamp dt = (let s = strftime_micro dt in take (length s - 3) s @ ''Z'')"

record es_range =
  gte :: string
  lte :: string

definition to_elasticsearch_format :: "datetime \<Rightarrow> datetime \<Rightarrow> es_range" where
  "to_elasticsearch_format start_time end_time =
     \<lparr> gte = es_timestamp start_time, lte = es_timestamp end_time \<rparr>"

section \<open>es\_client.py\<close>

subsection \<open>\<open>ESClient.search_kql\<close>: the search body\<close>

datatype json =
    JStr string
  | JNum nat
  | JArr "json list"
  | JObj "(string \<times> json) list"

text \<open>The range clause appended when \<open>time_range\<close> is given.\<close>

definition time_filter :: "string \<Rightarrow> datetime \<Rightarrow> datetime \<Rightarrow> json" where
  "time_filter time_field start_time end_time =
     JObj [(''range'', JObj [(time_field,
        JObj [(''gte'', JStr (es_timestamp start_time)), (''lte'', JStr (es_timestamp end_time))])])]"

definition query_string_clause :: "string \<Rightarrow> json" where
  "query_string_clause query = JObj [(''query_string'', JObj [(''query'', JStr query)])]"

definition query_clauses :: "string \<Rightarrow> (datetime \<times> datetime) option \<Rightarrow> string \<Rightarrow> json list" where
  "query_clauses query time_range time_field =
     (case time_range of
        Some (start_time, end_time) \<Rightarrow> [time_filter time_field start_time end_time]
      | None \<Rightarrow> [])
     @ (if strip query \<noteq> [] then [query_string_clause query] else [])"

definition final_query :: "json list \<Rightarrow> json" where
  "final_query clauses =
     (if length clauses = 1 then hd clauses
      else if length clauses > 1 then JObj [(''bool'', JObj [(''must'', JArr clauses)])]
      else JObj [(''match_all'', JObj [])])"

definition kql_default_sort :: "string \<Rightarrow> json list" where
  "kql_default_sort time_field = [JObj [(time_field, JObj [(''order'', JStr ''desc'')])]]"

text \<open>
  \<open>sort\<close> is \<open>None\<close> or a list; \<open>if sort:\<close> holds for a non-empty list only.
\<close>

definition search_body ::
  "string \<Rightarrow> nat \<Rightarrow> nat \<Rightarrow> json list option \<Rightarrow> (datetime \<times> datetime) option \<Rightarrow> string \<Rightarrow> (string \<times> json) list" where
  "search_body query page_size from_ofs sort_spec time_range time_field =
     [(''query'', final_query (query_clauses query time_range time_field)),
      (''size'', JNum page_size),
      (''from'', JNum from_ofs),
      (''sort'', JArr (case sort_spec of
                        Some (x # xs) \<Rightarrow> x # xs
                      | _ \<Rightarrow> kql_default_sort time_field))]"

subsection \<open>\<open>ESClient.query_esql\<close>: the time filter written into the query text\<close>

definition time_condition :: "string \<Rightarrow> string \<Rightarrow> string \<Rightarrow> string" where
  "time_condition time_field start_str end_str =
     time_field @ '' >= '' @ dq @ start_str @ dq @ '' AND '' @ time_field @ '' <= '' @ dq @ end_str @ dq"

definition esql_with_time_range :: "string \<Rightarrow> (datetime \<times> datetime) option \<Rightarrow> string \<Rightarrow> string" where
  "esql_with_time_range query time_range time_field =
     (case time_range of
        None \<Rightarrow> query
      | Some (start_time, end_time) \<Rightarrow>
          let start_str = es_timestamp start_time;
              end_str = es_timestamp end_time;
              query_upper = str_upper query
          in if contains ''WHERE'' query_upper then
               (case upper_find ''WHERE'' query_upper 0 of
                  None \<Rightarrow> query
                | Some where_pos \<Rightarrow>
                    let after_where = strip (drop (where_pos + 5) query);
                        time_filter = time_condition time_field start_str end_str @ '' AND ''
                    in take (where_pos + 5) query @ '' '' @ time_filter @ after_where)
             else
               (case upper_find ''FROM'' query_upper 0 of
                  None \<Rightarrow> query
                | Some from_pos \<Rightarrow>
                    (case str_find ''|'' query from_pos of
                       Some pipe_pos \<Rightarrow>
                         strip (take pipe_pos query) @ '' | WHERE ''
                           @ time_condition time_field start_str end_str @ '' | ''
                           @ strip (drop (pipe_pos + 1) query)
                     | None \<Rightarrow>
                         strip query @ '' | WHERE '' @ time_condition time_field start_str end_str)))"

section \<open>ui.py\<close>

subsection \<open>Responses of the backend\<close>

text \<open>
  A value inside a response is \<open>None\<close>, a boolean, an integer, a string, or a float, list
  or dictionary; for the last three only the text that \<open>str\<close> gives is kept.
\<close>

datatype pyval = PNone | PBool bool | PInt int | PStr string | POther string

definition py_str :: "pyval \<Rightarrow> string" where
  "py_str v =
     (case v of
        PNone \<Rightarrow> ''None''
      | PBool b \<Rightarrow> (if b then ''True'' else ''False'')
      | PInt i \<Rightarrow> (if i < 0 then ''-'' @ dec (nat (- i)) else dec (nat i))
      | PStr s \<Rightarrow> s
      | POther s \<Rightarrow> s)"

text \<open>
  A hit: \<open>_id\<close> and \<open>_index\<close> may be absent, \<open>_source\<close> is a dictionary in insertion
  order (absent counts as empty).
\<close>

record hit =
  hit_id :: "pyval option"
  hit_index :: "pyval option"
  hit_source :: "(string \<times> pyval) list"

text \<open>\<open>hits.total\<close> is a dictionary with an optional \<open>value\<close>, or a number.\<close>

datatype total_field = TotalDict "nat option" | TotalScalar nat

record kql_response =
  hits :: "hit list"
  hits_total :: total_field

text \<open>An ESQL response: the \<open>name\<close> of each column (if present) and the rows of values.\<close>

record esql_response =
  esql_columns :: "string option list"
  esql_values :: "pyval list list"

subsection \<open>\<open>ResultsTable\<close>\<close>

datatype glyph = ArrowLeft | ArrowRight | Txt string

type_synonym widget = "nat \<times> glyph"

datatype rendered = HeaderRow "widget list" | DataRow "widget list"

text \<open>
  The info bar: its initial text, \<open>No results found\<close>, or \<open>Showing ...\<close> with the
  optional column range (first, last, count) and the key hint that ends it.
\<close>

datatype caption_base = ShowingKql nat nat nat | ShowingEsql nat

datatype hint = PageHint | QuitHint

datatype caption = NoResults | NoResultsFound | Showing caption_base "(nat \<times> nat \<times> nat) option" hint

record table_state =
  headers :: "string list"
  rows :: "string list list"
  total_hits :: nat
  table_from :: nat
  table_size :: nat
  hscroll_pos :: nat
  info_text :: caption
  list_walker :: "rendered list"

definition new_results_table :: table_state where
  "new_results_table =
     \<lparr> headers = [], rows = [], total_hits = 0, table_from = 0, table_size = 100,
       hscroll_pos = 0, info_text = NoResults, list_walker = [] \<rparr>"

text \<open>\<open>ResultsTable._filter_empty_columns\<close>\<close>

definition all_empty :: "string list list \<Rightarrow> nat \<Rightarrow> bool" where
  "all_empty rs col_idx =
     list_all (\<lambda>row. if col_idx < length row then strip (row ! col_idx) = [] else True) rs"

definition empty_col_indices :: "string list \<Rightarrow> string list list \<Rightarrow> nat list" where
  "empty_col_indices hs rs = filter (all_empty rs) [0..<length hs]"

definition without_indices :: "nat list \<Rightarrow> 'a list \<Rightarrow> 'a list" where
  "without_indices idx xs = map snd (filter (\<lambda>(i, v). i \<notin> set idx) (enumerate 0 xs))"

definition filter_empty_columns :: "table_state \<Rightarrow> table_state" where
  "filter_empty_columns t =
     (let hs = headers t; rs = rows t
      in if hs = [] \<or> rs = [] then t
         else let empty = empty_col_indices hs rs
              in if empty \<noteq> [] \<and> length empty < length hs
                 then t\<lparr>headers := without_indices empty hs,
                        rows := map (without_indices empty) rs\<rparr>
                 else t)"

text \<open>\<open>ResultsTable._calculate_column_widths\<close>\<close>

definition calculate_column_widths :: "string list \<Rightarrow> string list list \<Rightarrow> nat \<Rightarrow> nat \<Rightarrow> nat list" where
  "calculate_column_widths hs rs visible_start visible_end =
     map (\<lambda>col_idx.
            let max_content_width =
                  fold (\<lambda>row m. if col_idx < length row then max m (length (row ! col_idx)) else m)
                       rs (length (hs ! col_idx))
            in max 15 (min (max_content_width + 3) 100))
         [visible_start..<min visible_end (length hs)]"

text \<open>\<open>ResultsTable._update_display\<close>; \<open>padded w s\<close> is \<open>f" {s:<{w-2}} "\<close>.\<close>

definition padded :: "nat \<Rightarrow> string \<Rightarrow> string" where
  "padded col_width s = '' '' @ s @ replicate (col_width - 2 - length s) (CHR '' '') @ '' ''"

definition width_at :: "nat list \<Rightarrow> nat \<Rightarrow> nat" where
  "width_at col_widths i = (if i < length col_widths then col_widths ! i else 30)"

definition update_display :: "table_state \<Rightarrow> table_state" where
  "update_display t =
     (let hs = headers t; rs = rows t
      in if hs = [] \<or> rs = [] then t\<lparr>list_walker := []\<rparr>
         else
           let visible_start = hscroll_pos t;
               visible_end = min (visible_start + 6) (length hs);
               visible_headers = take (visible_end - visible_start) (drop visible_start hs);
               col_widths = calculate_column_widths hs rs visible_start visible_end;
               header_row = HeaderRow
                 ((if visible_start > 0 then [(3, ArrowLeft)] else [])
                  @ map (\<lambda>(i, h). (width_at col_widths i, Txt (padded (width_at col_widths i) h)))
                        (enumerate 0 visible_headers)
                  @ (if visible_end < length hs then [(3, ArrowRight)] else []));
               data_row = (\<lambda>row. DataRow
                 ((if visible_start > 0 then [(3, Txt '' '')] else [])
                  @ map (\<lambda>j. let col_width = width_at col_widths (j - visible_start);
                                 cell_str = row ! j;
                                 shown = (if length cell_str > col_width - 3
                                          then take (col_width - 6) cell_str @ ''...''
                                          else cell_str)
                             in (col_width, Txt (padded col_width shown)))
                        [visible_start..<min visible_end (length row)]
                  @ (if visible_end < length hs then [(3, Txt '' '')] else [])))
           in t\<lparr>list_walker := header_row # map data_row rs\<rparr>)"

text \<open>The column range of the info bar, present when there are more than six columns.\<close>

definition scroll_info :: "table_state \<Rightarrow> (nat \<times> nat \<times> nat) option" where
  "scroll_info t =
     (let n = length (headers t)
      in if n > 6 then Some (hscroll_pos t + 1, min (hscroll_pos t + 6) n, n) else None)"

text \<open>
  \<open>ResultsTable._update_info_text\<close>: a \<open>Showing\<close> text that contains \<open>of\<close> (a KQL
  text, or one that already shows a column range) gets the paging hint, any other
  \<open>Showing\<close> text the quit hint; other texts stay.
\<close>

definition update_info_text :: "table_state \<Rightarrow> table_state" where
  "update_info_text t =
     (case info_text t of
        Showing b sc h \<Rightarrow>
          (if (case b of ShowingKql _ _ _ \<Rightarrow> True | ShowingEsql _ \<Rightarrow> sc \<noteq> None)
           then t\<lparr>info_text := Showing b (scroll_info t) PageHint\<rparr>
           else t\<lparr>info_text := Showing b (scroll_info t) QuitHint\<rparr>)
      | _ \<Rightarrow> t)"

text \<open>\<open>ResultsTable._display_kql_results\<close>\<close>

definition cell_or_empty :: "pyval option \<Rightarrow> string" where
  "cell_or_empty v = (case v of None \<Rightarrow> [] | Some x \<Rightarrow> py_str x)"

definition kql_headers :: "hit \<Rightarrow> string list" where
  "kql_headers first_hit =
     (let headers_list = map fst (hit_source first_hit);
          with_id = (if ''_id'' \<notin> set headers_list then ''_id'' # headers_list else headers_list)
      in if ''_index'' \<notin> set with_id then take 1 with_id @ [''_index''] @ drop 1 with_id
         else with_id)"

definition kql_row :: "string list \<Rightarrow> hit \<Rightarrow> string list" where
  "kql_row hs h =
     [cell_or_empty (hit_id h), cell_or_empty (hit_index h)]
     @ map (\<lambda>header. cell_or_empty (map_of (hit_source h) header)) (drop 2 hs)"

definition display_kql_results :: "kql_response \<Rightarrow> table_state \<Rightarrow> table_state" where
  "display_kql_results response t =
     (let t1 = t\<lparr>total_hits :=
                   (case hits_total response of
                      TotalDict v \<Rightarrow> (case v of None \<Rightarrow> 0 | Some n \<Rightarrow> n)
                    | TotalScalar n \<Rightarrow> n)\<rparr>
      in case hits response of
           [] \<Rightarrow> t1\<lparr>info_text := NoResultsFound, list_walker := []\<rparr>
         | first_hit # _ \<Rightarrow>
             let hs = kql_headers first_hit;
                 t2 = t1\<lparr>headers := hs, rows := map (kql_row hs) (hits response)\<rparr>;
                 t3 = filter_empty_columns t2;
                 t4 = update_display (t3\<lparr>hscroll_pos := 0\<rparr>)
             in t4\<lparr>info_text :=
                     Showing (ShowingKql (table_from t4 + 1)
                                (min (table_from t4 + length (hits response)) (total_hits t4))
                                (total_hits t4))
                             (scroll_info t4) PageHint\<rparr>)"

text \<open>\<open>ResultsTable._display_esql_results\<close>\<close>

definition esql_cell :: "pyval \<Rightarrow> string" where
  "esql_cell v = (case v of PNone \<Rightarrow> [] | _ \<Rightarrow> py_str v)"

definition display_esql_results :: "esql_response \<Rightarrow> table_state \<Rightarrow> table_state" where
  "display_esql_results response t =
     (if esql_columns response = [] \<or> esql_values response = []
      then t\<lparr>info_text := NoResultsFound, list_walker := []\<rparr>
      else
        let rows_list = map (map esql_cell) (esql_values response);
            t2 = t\<lparr>headers := map (\<lambda>col. case col of None \<Rightarrow> [] | Some n \<Rightarrow> n) (esql_columns response),
                    rows := rows_list, total_hits := length rows_list\<rparr>;
            t3 = filter_empty_columns t2;
            t4 = update_display (t3\<lparr>hscroll_pos := 0\<rparr>)
        in t4\<lparr>info_text := Showing (ShowingEsql (length rows_list)) (scroll_info t4) QuitHint\<rparr>)"

text \<open>
  \<open>ResultsTable.keypress\<close>. \<open>q\<close>, \<open>n\<close> and \<open>p\<close> are returned to the caller;
  the scroll keys are consumed; any other key goes to the toolkit's list box
  (\<open>Super\<close>), which does not touch the table model.
\<close>

definition scroll_right :: "table_state \<Rightarrow> table_state" where
  "scroll_right t =
     (let max_scroll = length (headers t) - 6
      in if hscroll_pos t < max_scroll
         then update_info_text (update_display (t\<lparr>hscroll_pos := hscroll_pos t + 1\<rparr>))
         else t)"

definition scroll_left :: "table_state \<Rightarrow> table_state" where
  "scroll_left t =
     (if hscroll_pos t > 0
      then update_info_text (update_display (t\<lparr>hscroll_pos := hscroll_pos t - 1\<rparr>))
      else t)"

datatype 'a keyresult = Returned "string option" 'a | Super

definition table_keypress :: "string \<Rightarrow> table_state \<Rightarrow> table_state keyresult" where
  "table_keypress key t =
     (if key = ''q'' then Returned (Some key) t
      else if key = ''n'' then Returned (Some key) t
      else if key = ''p'' then Returned (Some key) t
      else if key = ''right'' \<or> key = ''l'' then Returned None (scroll_right t)
      else if key = ''left'' \<or> key = ''h'' then Returned None (scroll_left t)
      else Super)"

subsection \<open>The backend as the session sees it\<close>

text \<open>
  The transport is outside the program: the Elasticsearch client's \<open>search\<close>, the HTTP
  \<open>post\<close>, the clock and \<open>datetime - timedelta\<close> are parameters. A \<open>timedelta\<close> is a
  number of seconds.
\<close>

datatype py_error = ValueError string | RuntimeError string

datatype client_failure = RequestError string | ClientException string

datatype http_failure = GatewayTimeout | HTTPError string | Timeout | RequestException string

datatype request =
    SearchCall string "(string \<times> json) list"
  | EsqlCall string string

record backend =
  client_search :: "string \<Rightarrow> (string \<times> json) list \<Rightarrow> client_failure + kql_response"
  http_post :: "string \<Rightarrow> string \<Rightarrow> http_failure + esql_response"
  utcnow :: datetime
  minus_delta :: "datetime \<Rightarrow> nat \<Rightarrow> datetime"

text \<open>\<open>TimeRange.PRESETS\<close>, \<open>TimeRange.DEFAULT_PRESET\<close> and \<open>TimeRange.get_time_range\<close>\<close>

definition PRESETS :: "(string \<times> nat) list" where
  "PRESETS =
     [(''Last 15 minutes'', 900), (''Last 30 minutes'', 1800), (''Last 1 hour'', 3600),
      (''Last 3 hours'', 10800), (''Last 6 hours'', 21600), (''Last 12 hours'', 43200),
      (''Last 24 hours'', 86400), (''Last 7 days'', 604800), (''Last 30 days'', 2592000)]"

definition DEFAULT_PRESET :: string where
  "DEFAULT_PRESET = ''Last 15 minutes''"

definition get_time_range :: "backend \<Rightarrow> string \<Rightarrow> datetime \<times> datetime" where
  "get_time_range be preset =
     (let delta = (case map_of PRESETS preset of
                     Some d \<Rightarrow> d
                   | None \<Rightarrow> (case map_of PRESETS DEFAULT_PRESET of Some d \<Rightarrow> d | None \<Rightarrow> 0));
          end_time = utcnow be
      in (minus_delta be end_time delta, end_time))"

text \<open>
  \<open>ESClient.search_kql\<close> and \<open>ESClient.query_esql\<close>: the request that is sent, and
  the response or the exception that comes back.
\<close>

definition search_kql ::
  "backend \<Rightarrow> string \<Rightarrow> string \<Rightarrow> nat \<Rightarrow> nat \<Rightarrow> json list option \<Rightarrow> (datetime \<times> datetime) option
     \<Rightarrow> string \<Rightarrow> request \<times> (py_error + kql_response)" where
  "search_kql be query index page_size from_ofs sort_spec time_range time_field =
     (let body = search_body query page_size from_ofs sort_spec time_range time_field
      in (SearchCall index body,
          case client_search be index body of
            Inl (RequestError msg) \<Rightarrow> Inl (ValueError (''Invalid KQL query: '' @ msg))
          | Inl (ClientException msg) \<Rightarrow> Inl (RuntimeError (''Search failed: '' @ msg))
          | Inr response \<Rightarrow> Inr response))"

definition query_esql ::
  "backend \<Rightarrow> string \<Rightarrow> string \<Rightarrow> (datetime \<times> datetime) option \<Rightarrow> string
     \<Rightarrow> request \<times> (py_error + esql_response)" where
  "query_esql be query fmt time_range time_field =
     (let query' = esql_with_time_range query time_range time_field
      in (EsqlCall query' fmt,
          case http_post be query' fmt of
            Inl GatewayTimeout \<Rightarrow> Inl (RuntimeError
              (''ESQL query timed out (504 Gateway Timeout). ''
               @ ''The query is taking too long to execute. ''
               @ ''Try: 1) Reducing the time range, 2) Adding a LIMIT clause, ''
               @ ''3) Making the query more specific, or 4) Using KQL instead.''))
          | Inl (HTTPError msg) \<Rightarrow> Inl (ValueError (''Invalid ESQL query: '' @ msg))
          | Inl Timeout \<Rightarrow> Inl (RuntimeError
              (''ESQL query timed out. The query took longer than 10 minutes to execute. ''
               @ ''Try: 1) Reducing the time range, 2) Adding a LIMIT clause, ''
               @ ''3) Making the query more specific, or 4) Using KQL instead.''))
          | Inl (RequestException msg) \<Rightarrow> Inl (RuntimeError (''ESQL query failed: '' @ msg))
          | Inr response \<Rightarrow> Inr response))"

subsection \<open>\<open>MainWindow\<close>, \<open>QueryInput\<close> and the unhandled keys of main.py\<close>

datatype query_type = ESQL | KQL

text \<open>
  The status bar: the start-up text (index, preset), the in-progress text, the two
  success texts and the two error texts.
\<close>

datatype status =
    Connected string string
  | Executing query_type
  | EsqlDone string nat
  | KqlDone string string nat
  | QueryError string
  | OtherError string

text \<open>
  The window: \<open>query_edit\<close> is the text of the edit box, \<open>esql_radio\<close> the state of
  the ESQL radio button (KQL is selected when it is off), \<open>current_preset\<close> the preset
  of the time range selector; \<open>calls\<close> lists the requests sent so far.
\<close>

record main_window =
  current_index :: string
  current_from :: nat
  current_size :: nat
  query_edit :: string
  esql_radio :: bool
  results_table :: table_state
  current_preset :: string
  status_bar :: status
  calls :: "request list"

definition new_main_window :: "string \<Rightarrow> nat \<Rightarrow> main_window" where
  "new_main_window default_index default_size =
     \<lparr> current_index = default_index, current_from = 0, current_size = default_size,
       query_edit = [], esql_radio = True, results_table = new_results_table,
       current_preset = DEFAULT_PRESET, status_bar = Connected default_index DEFAULT_PRESET,
       calls = [] \<rparr>"

definition truncate_msg :: "string \<Rightarrow> string" where
  "truncate_msg error_msg = (if length error_msg > 120 then take 117 error_msg @ ''...'' else error_msg)"

definition error_status :: "py_error \<Rightarrow> status" where
  "error_status e =
     (case e of
        ValueError msg \<Rightarrow> QueryError (truncate_msg msg)
      | RuntimeError msg \<Rightarrow> OtherError (truncate_msg msg))"

text \<open>\<open>MainWindow._on_query_submit\<close>\<close>

definition on_query_submit :: "backend \<Rightarrow> string \<Rightarrow> query_type \<Rightarrow> main_window \<Rightarrow> main_window" where
  "on_query_submit be query qt w =
     (let w1 = w\<lparr>current_from := 0, status_bar := Executing qt\<rparr>;
          time_range = get_time_range be (current_preset w1)
      in case qt of
           ESQL \<Rightarrow>
             (case query_esql be query ''json'' (Some time_range) ''@timestamp'' of
                (req, result) \<Rightarrow>
                  let w2 = w1\<lparr>calls := calls w1 @ [req]\<rparr>
                  in (case result of
                        Inl e \<Rightarrow> w2\<lparr>status_bar := error_status e\<rparr>
                      | Inr response \<Rightarrow>
                          let tbl = display_esql_results response (results_table w2)
                          in w2\<lparr>results_table := tbl,
                                 status_bar := EsqlDone (current_preset w2) (total_hits tbl)\<rparr>))
         | KQL \<Rightarrow>
             (case search_kql be query (current_index w1) (current_size w1) (current_from w1)
                     None (Some time_range) ''@timestamp'' of
                (req, result) \<Rightarrow>
                  let w2 = w1\<lparr>calls := calls w1 @ [req]\<rparr>
                  in (case result of
                        Inl e \<Rightarrow> w2\<lparr>status_bar := error_status e\<rparr>
                      | Inr response \<Rightarrow>
                          let tbl = display_kql_results response (results_table w2)
                          in w2\<lparr>results_table := tbl,
                                 status_bar := KqlDone (current_index w2) (current_preset w2)
                                                 (total_hits tbl)\<rparr>)))"

text \<open>
  \<open>QueryInput.keypress\<close>: \<open>enter\<close> submits the stripped text when it is not blank,
  \<open>esc\<close> clears the edit box, any other key goes to the toolkit's edit widget
  (\<open>Super\<close>).
\<close>

definition get_query :: "main_window \<Rightarrow> string \<times> query_type" where
  "get_query w = (query_edit w, if esql_radio w then ESQL else KQL)"

definition query_input_keypress :: "backend \<Rightarrow> string \<Rightarrow> main_window \<Rightarrow> main_window keyresult" where
  "query_input_keypress be key w =
     (if key = ''enter'' then
        (let query = query_edit w
         in if strip query \<noteq> []
            then Returned None (on_query_submit be (strip query) (if esql_radio w then ESQL else KQL) w)
            else Returned None w)
      else if key = ''esc'' then Returned None (w\<lparr>query_edit := []\<rparr>)
      else Super)"

text \<open>\<open>handle_unhandled_input\<close> of main.py; \<open>q\<close> raises \<open>ExitMainLoop\<close>.\<close>

datatype loop_outcome = ExitMainLoop | Continue main_window

definition handle_unhandled_input :: "backend \<Rightarrow> string \<Rightarrow> main_window \<Rightarrow> loop_outcome" where
  "handle_unhandled_input be key w =
     (if key = ''q'' then ExitMainLoop
      else if key = ''n'' then
        (if current_from w + current_size w < total_hits (results_table w) then
           (let w1 = w\<lparr>current_from := current_from w + current_size w\<rparr>
            in case get_query w1 of
                 (query, qt) \<Rightarrow>
                   if query \<noteq> [] then Continue (on_query_submit be query qt w1) else Continue w1)
         else Continue w)
      else if key = ''p'' then
        (if current_from w > 0 then
           (let w1 = w\<lparr>current_from := current_from w - current_size w\<rparr>
            in case get_query w1 of
                 (query, qt) \<Rightarrow>
                   if query \<noteq> [] then Continue (on_query_submit be query qt w1) else Continue w1)
         else Continue w)
      else Continue w)"

text \<open>The bound on the scroll position: \<open>0 \<le> offset \<le> max(0, columns - 6)\<close>.\<close>

definition hscroll_in_range :: "table_state \<Rightarrow> bool" where
  "hscroll_in_range t =
     (0 \<le> int (hscroll_pos t) \<and> int (hscroll_pos t) \<le> max 0 (int (length (headers t)) - 6))"

section \<open>Facts about the timestamp rendering\<close>

lemma dec_small: "n < 10 \<Longrightarrow> dec n = [digit n]"
  by (subst dec.simps) simp

lemma dec_large: "\<not> n < 10 \<Longrightarrow> dec n = dec (n div 10) @ [digit (n mod 10)]"
  by (subst dec.simps) simp

lemma dec_nonempty: "dec n \<noteq> []"
  by (cases "n < 10") (simp_all add: dec_small dec_large)

lemma zpad_dec_snoc:
  assumes "0 < w"
  shows "zpad (Suc w) (dec n) = zpad w (dec (n div 10)) @ [digit (n mod 10)]"
proof (cases "n < 10")
  case True
  then have a: "dec n = [digit (n mod 10)]" by (simp add: dec_small)
  from True have b: "dec (n div 10) = [CHR ''0'']" by (simp add: dec_small digit_def)
  obtain v where v: "w = Suc v" using assms by (cases w) auto
  have "replicate (Suc v) (CHR ''0'') = replicate v (CHR ''0'') @ [CHR ''0'']"
    by (simp add: replicate_append_same)
  then show ?thesis using a b v by (simp add: zpad_def)
next
  case False
  then have "dec n = dec (n div 10) @ [digit (n mod 10)]" by (rule dec_large)
  then show ?thesis by (simp add: zpad_def)
qed

lemma zpad6_split:
  "zpad 6 (dec n) = zpad 3 (dec (n div 1000))
     @ [digit (n div 100 mod 10), digit (n div 10 mod 10), digit (n mod 10)]"
proof -
  have s1: "zpad (Suc 5) (dec n) = zpad 5 (dec (n div 10)) @ [digit (n mod 10)]"
    by (rule zpad_dec_snoc) simp
  have s2: "zpad (Suc 4) (dec (n div 10)) = zpad 4 (dec (n div 10 div 10)) @ [digit (n div 10 mod 10)]"
    by (rule zpad_dec_snoc) simp
  have s3: "zpad (Suc 3) (dec (n div 10 div 10))
      = zpad 3 (dec (n div 10 div 10 div 10)) @ [digit (n div 10 div 10 mod 10)]"
    by (rule zpad_dec_snoc) simp
  have d1: "n div 10 div 10 = n div 100" by (simp add: div_mult2_eq)
  have d2: "n div 100 div 10 = n div 1000" by (simp add: div_mult2_eq)
  have n6: "(6::nat) = Suc 5" and n5: "(5::nat) = Suc 4" and n4: "(4::nat) = Suc 3" by simp_all
  have "zpad 6 (dec n) = zpad (Suc 5) (dec n)" by (simp only: n6 [symmetric])
  also have "\<dots> = zpad 5 (dec (n div 10)) @ [digit (n mod 10)]" by (rule s1)
  also have "zpad 5 (dec (n div 10)) = zpad (Suc 4) (dec (n div 10))" by (simp only: n5 [symmetric])
  also have "\<dots> = zpad 4 (dec (n div 100)) @ [digit (n div 10 mod 10)]"
    using s2 by (simp only: d1)
  also have "zpad 4 (dec (n div 100)) = zpad (Suc 3) (dec (n div 100))" by (simp only: n4 [symmetric])
  also have "\<dots> = zpad 3 (dec (n div 1000)) @ [digit (n div 100 mod 10)]"
    using s3 by (simp only: d1 d2)
  finally show ?thesis by simp
qed

text \<open>
  C9. The backend timestamp of an instant is the seconds-precision rendering, a dot, the
  three digits of the whole milliseconds (microseconds divided by 1000, rounded down),
  and \<open>Z\<close>: the microsecond rendering with its last three digits dropped and \<open>Z\<close>
  appended. It always ends in \<open>Z\<close>, and both bounds of \<open>to_elasticsearch_format\<close>
  are rendered this way.
\<close>

theorem es_timestamp_truncates:
  "es_timestamp dt = strftime_seconds dt @ ''.'' @ zpad 3 (dec (microsecond dt div 1000)) @ ''Z''
   \<and> es_timestamp dt = take (length (strftime_micro dt) - 3) (strftime_micro dt) @ ''Z''
   \<and> length (zpad 3 (dec (microsecond dt div 1000))) = max 3 (length (dec (microsecond dt div 1000)))
   \<and> last (es_timestamp dt) = CHR ''Z''
   \<and> gte (to_elasticsearch_format dt dt') = es_timestamp dt
   \<and> lte (to_elasticsearch_format dt dt') = es_timestamp dt'"
proof -
  have "strftime_micro dt = (strftime_seconds dt @ ''.'' @ zpad 3 (dec (microsecond dt div 1000)))
      @ [digit (microsecond dt div 100 mod 10), digit (microsecond dt div 10 mod 10),
         digit (microsecond dt mod 10)]"
    by (simp add: strftime_micro_def zpad6_split)
  then have "take (length (strftime_micro dt) - 3) (strftime_micro dt)
      = strftime_seconds dt @ ''.'' @ zpad 3 (dec (microsecond dt div 1000))"
    by simp
  then have a: "es_timestamp dt
      = strftime_seconds dt @ ''.'' @ zpad 3 (dec (microsecond dt div 1000)) @ ''Z''"
    by (simp add: es_timestamp_def Let_def)
  have b: "es_timestamp dt = take (length (strftime_micro dt) - 3) (strftime_micro dt) @ ''Z''"
    by (simp add: es_timestamp_def Let_def)
  have c: "last (es_timestamp dt) = CHR ''Z''"
    by (simp add: es_timestamp_def Let_def)
  have d: "length (zpad 3 (dec (microsecond dt div 1000))) = max 3 (length (dec (microsecond dt div 1000)))"
    by (simp add: zpad_def max_def)
  show ?thesis using a b c d by (simp add: to_elasticsearch_format_def)
qed

section \<open>Facts about the query compiler\<close>

lemma find_idx_single:
  "find_idx [c] s = (if c \<in> set s then Some (length (takeWhile (\<lambda>x. x \<noteq> c) s)) else None)"
  by (induction s) auto


lemma str_find_pipe_split:
  assumes "fp \<le> length a" and "c \<notin> set (drop fp a)"
  shows "str_find [c] (a @ c # b) fp = Some (length a)"
proof -
  have "takeWhile (\<lambda>x. x \<noteq> c) (drop fp a @ c # b) = drop fp a"
    using assms(2) by (subst takeWhile_append2) auto
  then show ?thesis
    using assms(1) by (simp add: str_find_def find_idx_single)
qed

lemma str_find_pipe_none:
  assumes "c \<notin> set (drop fp q)"
  shows "str_find [c] q fp = None"
  using assms by (simp add: str_find_def find_idx_single)

lemma esql_no_where:
  assumes "\<not> contains ''WHERE'' (str_upper q)"
  shows "esql_with_time_range q (Some (s, e)) tf =
     (case upper_find ''FROM'' (str_upper q) 0 of
        None \<Rightarrow> q
      | Some from_pos \<Rightarrow>
          (case str_find ''|'' q from_pos of
             Some pipe_pos \<Rightarrow>
               strip (take pipe_pos q) @ '' | WHERE ''
                 @ time_condition tf (es_timestamp s) (es_timestamp e) @ '' | ''
                 @ strip (drop (pipe_pos + 1) q)
           | None \<Rightarrow> strip q @ '' | WHERE '' @ time_condition tf (es_timestamp s) (es_timestamp e)))"
  using assms by (simp add: esql_with_time_range_def Let_def)




text \<open>
  For a query without \<open>WHERE\<close>, let \<open>fp\<close> be the index at which \<open>FROM\<close> is found
  in the upper-cased copy. When the query is \<open>a | b\<close> with \<open>fp\<close> inside \<open>a\<close> and
  no pipe in \<open>a\<close> from \<open>fp\<close> on, the new \<open>WHERE\<close> stage stands between \<open>a\<close> and
  \<open>b\<close> (both stripped); when the query has no pipe from \<open>fp\<close> on, the stage is
  appended to the stripped query.
\<close>

lemma esql_where_stage_at_pipe_from_upper_index:
  "(\<not> contains ''WHERE'' (str_upper (a @ ''|'' @ b))
        \<and> upper_find ''FROM'' (str_upper (a @ ''|'' @ b)) 0 = Some fp
        \<and> fp \<le> length a \<and> CHR ''|'' \<notin> set (drop fp a)
      \<longrightarrow> esql_with_time_range (a @ ''|'' @ b) (Some (s, e)) tf
            = strip a @ '' | WHERE '' @ time_condition tf (es_timestamp s) (es_timestamp e)
                @ '' | '' @ strip b)
   \<and> (\<not> contains ''WHERE'' (str_upper q)
        \<and> upper_find ''FROM'' (str_upper q) 0 = Some fq
        \<and> CHR ''|'' \<notin> set (drop fq q)
      \<longrightarrow> esql_with_time_range q (Some (s, e)) tf
            = strip q @ '' | WHERE '' @ time_condition tf (es_timestamp s) (es_timestamp e))"
proof (intro conjI impI)
  assume h: "\<not> contains ''WHERE'' (str_upper (a @ ''|'' @ b))
        \<and> upper_find ''FROM'' (str_upper (a @ ''|'' @ b)) 0 = Some fp
        \<and> fp \<le> length a \<and> CHR ''|'' \<notin> set (drop fp a)"
  then have p: "str_find ''|'' (a @ ''|'' @ b) fp = Some (length a)"
    by (simp add: str_find_pipe_split)
  from h have "esql_with_time_range (a @ ''|'' @ b) (Some (s, e)) tf
      = strip (take (length a) (a @ ''|'' @ b)) @ '' | WHERE ''
          @ time_condition tf (es_timestamp s) (es_timestamp e) @ '' | ''
          @ strip (drop (length a + 1) (a @ ''|'' @ b))"
    by (simp add: esql_no_where p del: append.simps)
  then show "esql_with_time_range (a @ ''|'' @ b) (Some (s, e)) tf
            = strip a @ '' | WHERE '' @ time_condition tf (es_timestamp s) (es_timestamp e)
                @ '' | '' @ strip b"
    by simp
next
  assume h: "\<not> contains ''WHERE'' (str_upper q)
        \<and> upper_find ''FROM'' (str_upper q) 0 = Some fq
        \<and> CHR ''|'' \<notin> set (drop fq q)"
  then have "str_find ''|'' q fq = None" by (simp add: str_find_pipe_none)
  with h show "esql_with_time_range q (Some (s, e)) tf
            = strip q @ '' | WHERE '' @ time_condition tf (es_timestamp s) (es_timestamp e)"
    by (simp add: esql_no_where)
qed

text \<open>
  C6. The query \<open>FROM logs | LIMIT 10\<close> with the range 2024-01-01 00:00 to 01:00 and
  the field \<open>@timestamp\<close> compiles to the expected text. The index of \<open>FROM\<close> is
  taken in the upper-cased copy and used in the query itself, and the two differ
  once upper-casing has lengthened the text: in the query of five sharp s followed by
  \<open> FROM|x | y\<close>, \<open>FROM\<close> stands at index 6 and the first pipe at index 10, but
  \<open>FROM\<close> is found at index 11 of the copy, so the search for the pipe starts
  behind the first pipe and the \<open>WHERE\<close> stage is put before the second one.
\<close>

theorem esql_where_stage_after_lengthening_upper:
  "esql_with_time_range ''FROM logs | LIMIT 10''
      (Some (\<lparr>year = 2024, month = 1, day = 1, hour = 0, minute = 0, second = 0, microsecond = 0\<rparr>,
             \<lparr>year = 2024, month = 1, day = 1, hour = 1, minute = 0, second = 0, microsecond = 0\<rparr>))
      ''@timestamp''
     = ''FROM logs | WHERE @timestamp >= '' @ dq @ ''2024-01-01T00:00:00.000Z'' @ dq
         @ '' AND @timestamp <= '' @ dq @ ''2024-01-01T01:00:00.000Z'' @ dq @ '' | LIMIT 10''
   \<and> str_upper (replicate 5 (CHR 0xDF) @ '' FROM|x | y'') = codes ''SSSSSSSSSS FROM|X | Y''
   \<and> str_find ''FROM'' (replicate 5 (CHR 0xDF) @ '' FROM|x | y'') 0 = Some 6
   \<and> str_find ''|'' (replicate 5 (CHR 0xDF) @ '' FROM|x | y'') 6 = Some 10
   \<and> upper_find ''FROM'' (str_upper (replicate 5 (CHR 0xDF) @ '' FROM|x | y'')) 0 = Some 11
   \<and> str_find ''|'' (replicate 5 (CHR 0xDF) @ '' FROM|x | y'') 11 = Some 13
   \<and> esql_with_time_range (replicate 5 (CHR 0xDF) @ '' FROM|x | y'')
      (Some (\<lparr>year = 2024, month = 1, day = 1, hour = 0, minute = 0, second = 0, microsecond = 0\<rparr>,
             \<lparr>year = 2024, month = 1, day = 1, hour = 1, minute = 0, second = 0, microsecond = 0\<rparr>))
      ''@timestamp''
     = replicate 5 (CHR 0xDF) @ '' FROM|x | WHERE @timestamp >= '' @ dq @ ''2024-01-01T00:00:00.000Z'' @ dq
         @ '' AND @timestamp <= '' @ dq @ ''2024-01-01T01:00:00.000Z'' @ dq @ '' | y''"
  by code_simp



section \<open>Facts about the results table\<close>

lemma without_indices_nth:
  "without_indices idx xs = map ((!) xs) (filter (\<lambda>i. i \<notin> set idx) [0..<length xs])"
proof (induction xs rule: rev_induct)
  case Nil
  show ?case by (simp add: without_indices_def)
next
  case (snoc x xs)
  have e: "enumerate 0 (xs @ [x]) = enumerate 0 xs @ [(length xs, x)]"
    by (simp add: enumerate_append_eq)
  have m: "map ((!) (xs @ [x])) (filter (\<lambda>i. i \<notin> set idx) [0..<length xs])
         = map ((!) xs) (filter (\<lambda>i. i \<notin> set idx) [0..<length xs])"
    by (rule map_cong) (auto simp: nth_append)
  from snoc have ih: "map snd (filter (\<lambda>(i, v). i \<notin> set idx) (enumerate 0 xs))
      = map ((!) xs) (filter (\<lambda>i. i \<notin> set idx) [0..<length xs])"
    by (simp add: without_indices_def)
  show ?case
    unfolding without_indices_def e using ih m by simp
qed

lemma set_empty_col_indices:
  "set (empty_col_indices hs rs) = {i. i < length hs \<and> all_empty rs i}"
  by (auto simp: empty_col_indices_def)

lemma empty_col_indices_all:
  assumes "\<forall>i<length hs. all_empty rs i"
  shows "length (empty_col_indices hs rs) = length hs"
proof -
  have "filter (all_empty rs) [0..<length hs] = [0..<length hs]"
    using assms by (simp add: filter_id_conv)
  then show ?thesis by (simp add: empty_col_indices_def)
qed

lemma empty_col_indices_less:
  assumes "i < length hs" and "\<not> all_empty rs i"
  shows "length (empty_col_indices hs rs) < length hs"
proof -
  have "length (filter (all_empty rs) [0..<length hs]) < length [0..<length hs]"
    by (rule length_filter_less [of i]) (use assms in auto)
  then show ?thesis by (simp add: empty_col_indices_def)
qed

lemma all_empty_no_rows: "all_empty [] i"
  by (simp add: all_empty_def)

lemma filter_empty_columns_headers:
  assumes "i < length (headers t)" and "\<not> all_empty (rows t) i"
  shows "headers (filter_empty_columns t)
       = map ((!) (headers t)) (filter (\<lambda>i. \<not> all_empty (rows t) i) [0..<length (headers t)])"
proof -
  have f: "filter (\<lambda>i. i \<notin> set (empty_col_indices (headers t) (rows t))) [0..<length (headers t)]
         = filter (\<lambda>i. \<not> all_empty (rows t) i) [0..<length (headers t)]"
    by (rule filter_cong) (auto simp: set_empty_col_indices)
  have ne: "headers t \<noteq> []" "rows t \<noteq> []"
    using assms all_empty_no_rows by auto
  have lt: "length (empty_col_indices (headers t) (rows t)) < length (headers t)"
    using assms by (rule empty_col_indices_less)
  show ?thesis
  proof (cases "empty_col_indices (headers t) (rows t) = []")
    case True
    then have "filter_empty_columns t = t"
      by (simp add: filter_empty_columns_def Let_def)
    moreover from True have "filter (\<lambda>i. \<not> all_empty (rows t) i) [0..<length (headers t)] = [0..<length (headers t)]"
      using f by (simp add: filter_id_conv)
    ultimately show ?thesis by (simp add: map_nth)
  next
    case False
    then have "headers (filter_empty_columns t)
        = without_indices (empty_col_indices (headers t) (rows t)) (headers t)"
      using ne lt by (simp add: filter_empty_columns_def Let_def)
    then show ?thesis by (simp add: without_indices_nth f)
  qed
qed

lemma filter_empty_columns_rows:
  assumes "i < length (headers t)" and "\<not> all_empty (rows t) i"
  shows "rows (filter_empty_columns t)
       = map (\<lambda>row. map ((!) row)
               (filter (\<lambda>i. \<not> (i < length (headers t) \<and> all_empty (rows t) i)) [0..<length row]))
             (rows t)"
proof -
  have f: "\<And>row. filter (\<lambda>i. i \<notin> set (empty_col_indices (headers t) (rows t))) [0..<length row]
         = filter (\<lambda>i. \<not> (i < length (headers t) \<and> all_empty (rows t) i)) [0..<length row]"
    by (rule filter_cong) (auto simp: set_empty_col_indices)
  have ne: "headers t \<noteq> []" "rows t \<noteq> []"
    using assms all_empty_no_rows by auto
  have lt: "length (empty_col_indices (headers t) (rows t)) < length (headers t)"
    using assms by (rule empty_col_indices_less)
  show ?thesis
  proof (cases "empty_col_indices (headers t) (rows t) = []")
    case True
    then have u: "filter_empty_columns t = t"
      by (simp add: filter_empty_columns_def Let_def)
    have g: "map ((!) row)
               (filter (\<lambda>i. \<not> (i < length (headers t) \<and> all_empty (rows t) i)) [0..<length row]) = row"
      for row :: "string list"
    proof -
      have "filter (\<lambda>i. \<not> (i < length (headers t) \<and> all_empty (rows t) i)) [0..<length row]
          = [0..<length row]"
        using f [of row, symmetric] True by simp
      then show ?thesis
        by (simp only: map_nth)
    qed
    have "map (\<lambda>row. map ((!) row)
               (filter (\<lambda>i. \<not> (i < length (headers t) \<and> all_empty (rows t) i)) [0..<length row]))
             (rows t) = rows t"
      by (simp only: g list.map_ident)
    with u show ?thesis by simp
  next
    case False
    then have "rows (filter_empty_columns t)
        = map (without_indices (empty_col_indices (headers t) (rows t))) (rows t)"
      using ne lt by (simp add: filter_empty_columns_def Let_def)
    then show ?thesis by (simp add: without_indices_nth f)
  qed
qed

lemma filter_empty_columns_skipped:
  assumes "\<forall>i<length (headers t). all_empty (rows t) i"
  shows "filter_empty_columns t = t"
  using empty_col_indices_all [OF assms]
  by (simp add: filter_empty_columns_def Let_def)

text \<open>
  C7. A column counts as empty when, in every row that reaches it, its cell strips to
  nothing. If some column is not empty, the headers that remain are exactly the
  non-empty columns in their old order, and every row keeps the cells at the positions
  that are not empty columns (for rows as long as the header list: the same positions
  as the headers). If every column is empty, or there are no rows or no headers,
  nothing is dropped. The hit count and the scroll position are not touched.
\<close>

theorem filter_empty_columns_elides:
  "((\<exists>i<length (headers t). \<not> all_empty (rows t) i) \<longrightarrow>
       headers (filter_empty_columns t)
         = map ((!) (headers t)) (filter (\<lambda>i. \<not> all_empty (rows t) i) [0..<length (headers t)])
     \<and> rows (filter_empty_columns t)
         = map (\<lambda>row. map ((!) row)
                 (filter (\<lambda>i. \<not> (i < length (headers t) \<and> all_empty (rows t) i)) [0..<length row]))
               (rows t))
   \<and> ((\<exists>i<length (headers t). \<not> all_empty (rows t) i)
        \<and> list_all (\<lambda>row. length row = length (headers t)) (rows t) \<longrightarrow>
       rows (filter_empty_columns t)
         = map (\<lambda>row. map ((!) row) (filter (\<lambda>i. \<not> all_empty (rows t) i) [0..<length (headers t)]))
               (rows t))
   \<and> ((\<forall>i<length (headers t). all_empty (rows t) i) \<longrightarrow> filter_empty_columns t = t)
   \<and> all_empty (rows t) k = list_all (\<lambda>row. k < length row \<longrightarrow> strip (row ! k) = []) (rows t)
   \<and> total_hits (filter_empty_columns t) = total_hits t
   \<and> hscroll_pos (filter_empty_columns t) = hscroll_pos t"
proof (intro conjI impI)
  assume "\<exists>i<length (headers t). \<not> all_empty (rows t) i"
  then obtain i where i: "i < length (headers t)" "\<not> all_empty (rows t) i" by blast
  from i show "headers (filter_empty_columns t)
         = map ((!) (headers t)) (filter (\<lambda>i. \<not> all_empty (rows t) i) [0..<length (headers t)])"
    by (rule filter_empty_columns_headers)
  from i show "rows (filter_empty_columns t)
         = map (\<lambda>row. map ((!) row)
                 (filter (\<lambda>i. \<not> (i < length (headers t) \<and> all_empty (rows t) i)) [0..<length row]))
               (rows t)"
    by (rule filter_empty_columns_rows)
next
  assume a: "(\<exists>i<length (headers t). \<not> all_empty (rows t) i)
        \<and> list_all (\<lambda>row. length row = length (headers t)) (rows t)"
  then obtain i where i: "i < length (headers t)" "\<not> all_empty (rows t) i" by blast
  have "map (\<lambda>row. map ((!) row)
                 (filter (\<lambda>i. \<not> (i < length (headers t) \<and> all_empty (rows t) i)) [0..<length row]))
               (rows t)
      = map (\<lambda>row. map ((!) row) (filter (\<lambda>i. \<not> all_empty (rows t) i) [0..<length (headers t)]))
               (rows t)"
  proof (rule map_cong [OF refl])
    fix row assume "row \<in> set (rows t)"
    with a have l: "length row = length (headers t)" by (simp add: list_all_iff)
    have "filter (\<lambda>i. \<not> (i < length (headers t) \<and> all_empty (rows t) i)) [0..<length (headers t)]
        = filter (\<lambda>i. \<not> all_empty (rows t) i) [0..<length (headers t)]"
      by (rule filter_cong) auto
    with l show "map ((!) row)
                 (filter (\<lambda>i. \<not> (i < length (headers t) \<and> all_empty (rows t) i)) [0..<length row])
        = map ((!) row) (filter (\<lambda>i. \<not> all_empty (rows t) i) [0..<length (headers t)])"
      by simp
  qed
  with filter_empty_columns_rows [OF i]
  show "rows (filter_empty_columns t)
         = map (\<lambda>row. map ((!) row) (filter (\<lambda>i. \<not> all_empty (rows t) i) [0..<length (headers t)]))
               (rows t)"
    by simp
next
  assume "\<forall>i<length (headers t). all_empty (rows t) i"
  then show "filter_empty_columns t = t" by (rule filter_empty_columns_skipped)
next
  show "all_empty (rows t) k = list_all (\<lambda>row. k < length row \<longrightarrow> strip (row ! k) = []) (rows t)"
    unfolding all_empty_def by (rule arg_cong [where f = "\<lambda>p. list_all p (rows t)"]) auto
next
  show "total_hits (filter_empty_columns t) = total_hits t"
    by (simp add: filter_empty_columns_def Let_def)
next
  show "hscroll_pos (filter_empty_columns t) = hscroll_pos t"
    by (simp add: filter_empty_columns_def Let_def)
qed

theorem filter_empty_columns_elides_witness:
  "\<not> all_empty (rows (new_results_table\<lparr>headers := [''a'', ''b'', ''c''],
        rows := [[''1'', '' '', ''x''], [''2'', '''', ''y'']]\<rparr>)) 0
   \<and> list_all (\<lambda>row. length row = length (headers (new_results_table\<lparr>headers := [''a'', ''b'', ''c''],
        rows := [[''1'', '' '', ''x''], [''2'', '''', ''y'']]\<rparr>)))
        (rows (new_results_table\<lparr>headers := [''a'', ''b'', ''c''],
        rows := [[''1'', '' '', ''x''], [''2'', '''', ''y'']]\<rparr>))
   \<and> headers (filter_empty_columns (new_results_table\<lparr>headers := [''a'', ''b'', ''c''],
        rows := [[''1'', '' '', ''x''], [''2'', '''', ''y'']]\<rparr>)) = [''a'', ''c'']
   \<and> rows (filter_empty_columns (new_results_table\<lparr>headers := [''a'', ''b'', ''c''],
        rows := [[''1'', '' '', ''x''], [''2'', '''', ''y'']]\<rparr>)) = [[''1'', ''x''], [''2'', ''y'']]
   \<and> all_empty (rows (new_results_table\<lparr>headers := [''a'', ''b'', ''c''],
        rows := [['''', '' '', ''  '']]\<rparr>)) 0
   \<and> all_empty (rows (new_results_table\<lparr>headers := [''a'', ''b'', ''c''],
        rows := [['''', '' '', ''  '']]\<rparr>)) 1
   \<and> all_empty (rows (new_results_table\<lparr>headers := [''a'', ''b'', ''c''],
        rows := [['''', '' '', ''  '']]\<rparr>)) 2
   \<and> filter_empty_columns (new_results_table\<lparr>headers := [''a'', ''b'', ''c''],
        rows := [['''', '' '', ''  '']]\<rparr>)
      = new_results_table\<lparr>headers := [''a'', ''b'', ''c''], rows := [['''', '' '', ''  '']]\<rparr>"
proof -
  let ?t = "new_results_table\<lparr>headers := [''a'', ''b'', ''c''],
        rows := [[''1'', '' '', ''x''], [''2'', '''', ''y'']]\<rparr>"
  let ?u = "new_results_table\<lparr>headers := [''a'', ''b'', ''c''], rows := [['''', '' '', ''  '']]\<rparr>"
  have e0: "\<not> all_empty (rows ?t) 0" by code_simp
  have l: "length (headers ?t) = 3" by (simp add: new_results_table_def)
  have h1: "\<exists>i<length (headers ?t). \<not> all_empty (rows ?t) i"
    using e0 l by (intro exI [of _ 0]) simp
  have h2: "list_all (\<lambda>row. length row = length (headers ?t)) (rows ?t)"
    by (simp add: new_results_table_def)
  have k: "map ((!) (headers ?t)) (filter (\<lambda>i. \<not> all_empty (rows ?t) i) [0..<length (headers ?t)])
      = [''a'', ''c'']" by code_simp
  have r: "map (\<lambda>row. map ((!) row) (filter (\<lambda>i. \<not> all_empty (rows ?t) i) [0..<length (headers ?t)]))
               (rows ?t) = [[''1'', ''x''], [''2'', ''y'']]" by code_simp
  have a0: "all_empty (rows ?u) 0" and a1: "all_empty (rows ?u) 1" and a2: "all_empty (rows ?u) 2"
    by code_simp+
  have lu: "length (headers ?u) = 3" by (simp add: new_results_table_def)
  have h3: "\<forall>i<length (headers ?u). all_empty (rows ?u) i"
  proof (intro allI impI)
    fix i assume "i < length (headers ?u)"
    then have "i = 0 \<or> i = 1 \<or> i = 2" using lu by arith
    then show "all_empty (rows ?u) i" using a0 a1 a2 by auto
  qed
  note t = filter_empty_columns_elides [of ?t 0] and u = filter_empty_columns_elides [of ?u 0]
  have c1: "headers (filter_empty_columns ?t) = [''a'', ''c'']"
    by (rule trans [OF _ k]) (use t h1 in blast)
  have c2: "rows (filter_empty_columns ?t) = [[''1'', ''x''], [''2'', ''y'']]"
    by (rule trans [OF _ r]) (use t h1 h2 in blast)
  from u h3 have c3: "filter_empty_columns ?u = ?u" by blast
  show ?thesis using e0 h2 c1 c2 a0 a1 a2 c3 by blast
qed

lemma update_display_frame:
  "headers (update_display t) = headers t" "rows (update_display t) = rows t"
  "hscroll_pos (update_display t) = hscroll_pos t" "total_hits (update_display t) = total_hits t"
  by (simp_all add: update_display_def Let_def)

lemma update_info_text_frame:
  "headers (update_info_text t) = headers t" "rows (update_info_text t) = rows t"
  "hscroll_pos (update_info_text t) = hscroll_pos t" "total_hits (update_info_text t) = total_hits t"
  by (simp_all add: update_info_text_def split: caption.splits)

lemma display_kql_results_hscroll:
  "hits kr \<noteq> [] \<Longrightarrow> hscroll_pos (display_kql_results kr t) = 0"
  by (cases "hits kr") (simp_all add: display_kql_results_def Let_def update_display_frame)

lemma display_kql_results_empty:
  "hits kr = [] \<Longrightarrow> headers (display_kql_results kr t) = headers t
     \<and> rows (display_kql_results kr t) = rows t
     \<and> hscroll_pos (display_kql_results kr t) = hscroll_pos t"
  by (simp add: display_kql_results_def Let_def)

lemma display_esql_results_hscroll:
  "esql_columns er \<noteq> [] \<Longrightarrow> esql_values er \<noteq> [] \<Longrightarrow> hscroll_pos (display_esql_results er t) = 0"
  by (simp add: display_esql_results_def Let_def update_display_frame)

lemma display_esql_results_empty:
  "esql_columns er = [] \<or> esql_values er = [] \<Longrightarrow> headers (display_esql_results er t) = headers t
     \<and> rows (display_esql_results er t) = rows t
     \<and> hscroll_pos (display_esql_results er t) = hscroll_pos t
     \<and> total_hits (display_esql_results er t) = total_hits t"
  by (auto simp add: display_esql_results_def Let_def)

lemma scroll_right_pos:
  "hscroll_pos (scroll_right t)
     = (if hscroll_pos t < length (headers t) - 6 then hscroll_pos t + 1 else hscroll_pos t)"
  "headers (scroll_right t) = headers t" "rows (scroll_right t) = rows t"
  by (simp_all add: scroll_right_def Let_def update_display_frame update_info_text_frame)

lemma scroll_left_pos:
  "hscroll_pos (scroll_left t) = (if hscroll_pos t > 0 then hscroll_pos t - 1 else hscroll_pos t)"
  "headers (scroll_left t) = headers t" "rows (scroll_left t) = rows t"
  by (simp_all add: scroll_left_def update_display_frame update_info_text_frame)

text \<open>
  The scroll position is within \<open>0 .. max(0, columns - 6)\<close> in a new table, and
  displaying a response or scrolling keeps it there. A response with hits (KQL) or
  with columns and values (ESQL) sets it to 0. Scrolling right adds exactly one below
  the bound and changes nothing at the bound; scrolling left subtracts exactly one
  above 0 and changes nothing at 0.
\<close>

lemma hscroll_pos_stays_in_range:
  "hscroll_in_range new_results_table
   \<and> (hscroll_in_range t \<longrightarrow> hscroll_in_range (display_kql_results kr t))
   \<and> (hscroll_in_range t \<longrightarrow> hscroll_in_range (display_esql_results er t))
   \<and> (hscroll_in_range t \<longrightarrow> hscroll_in_range (scroll_right t))
   \<and> (hscroll_in_range t \<longrightarrow> hscroll_in_range (scroll_left t))
   \<and> (hits kr \<noteq> [] \<longrightarrow> hscroll_pos (display_kql_results kr t) = 0)
   \<and> (esql_columns er \<noteq> [] \<and> esql_values er \<noteq> [] \<longrightarrow> hscroll_pos (display_esql_results er t) = 0)
   \<and> (int (hscroll_pos t1) < max 0 (int (length (headers t1)) - 6) \<longrightarrow>
        hscroll_pos (scroll_right t1) = hscroll_pos t1 + 1
        \<and> headers (scroll_right t1) = headers t1 \<and> rows (scroll_right t1) = rows t1)
   \<and> (\<not> int (hscroll_pos t2) < max 0 (int (length (headers t2)) - 6) \<longrightarrow> scroll_right t2 = t2)
   \<and> (hscroll_pos t3 > 0 \<longrightarrow>
        hscroll_pos (scroll_left t3) = hscroll_pos t3 - 1
        \<and> headers (scroll_left t3) = headers t3 \<and> rows (scroll_left t3) = rows t3)
   \<and> (hscroll_pos t4 = 0 \<longrightarrow> scroll_left t4 = t4)
   \<and> table_keypress ''right'' t = Returned None (scroll_right t)
   \<and> table_keypress ''l'' t = Returned None (scroll_right t)
   \<and> table_keypress ''left'' t = Returned None (scroll_left t)
   \<and> table_keypress ''h'' t = Returned None (scroll_left t)"
proof (intro conjI impI)
  show "hscroll_in_range new_results_table"
    by (simp add: hscroll_in_range_def new_results_table_def)
next
  assume "hscroll_in_range t"
  then show "hscroll_in_range (display_kql_results kr t)"
    by (cases "hits kr = []")
       (simp_all add: hscroll_in_range_def display_kql_results_hscroll display_kql_results_empty)
next
  assume "hscroll_in_range t"
  then show "hscroll_in_range (display_esql_results er t)"
    by (cases "esql_columns er = [] \<or> esql_values er = []")
       (simp_all add: hscroll_in_range_def display_esql_results_hscroll display_esql_results_empty)
next
  assume "hscroll_in_range t"
  then show "hscroll_in_range (scroll_right t)"
    by (auto simp add: hscroll_in_range_def scroll_right_pos)
next
  assume "hscroll_in_range t"
  then show "hscroll_in_range (scroll_left t)"
    by (auto simp add: hscroll_in_range_def scroll_left_pos)
next
  assume "hits kr \<noteq> []"
  then show "hscroll_pos (display_kql_results kr t) = 0" by (rule display_kql_results_hscroll)
next
  assume "esql_columns er \<noteq> [] \<and> esql_values er \<noteq> []"
  then show "hscroll_pos (display_esql_results er t) = 0" by (simp add: display_esql_results_hscroll)
next
  assume a: "int (hscroll_pos t1) < max 0 (int (length (headers t1)) - 6)"
  then have "hscroll_pos t1 < length (headers t1) - 6" by arith
  then show "hscroll_pos (scroll_right t1) = hscroll_pos t1 + 1" by (simp add: scroll_right_pos)
  show "headers (scroll_right t1) = headers t1" by (simp add: scroll_right_pos)
  show "rows (scroll_right t1) = rows t1" by (simp add: scroll_right_pos)
next
  assume "\<not> int (hscroll_pos t2) < max 0 (int (length (headers t2)) - 6)"
  then have "\<not> hscroll_pos t2 < length (headers t2) - 6" by arith
  then show "scroll_right t2 = t2" by (simp add: scroll_right_def)
next
  assume "hscroll_pos t3 > 0"
  then show "hscroll_pos (scroll_left t3) = hscroll_pos t3 - 1" by (simp add: scroll_left_pos)
  show "headers (scroll_left t3) = headers t3" by (simp add: scroll_left_pos)
  show "rows (scroll_left t3) = rows t3" by (simp add: scroll_left_pos)
next
  assume "hscroll_pos t4 = 0"
  then show "scroll_left t4 = t4" by (simp add: scroll_left_def)
qed (simp_all add: table_keypress_def)

text \<open>
  C8. A table of ten columns scrolled to position 3 stays at position 3 when the
  next response is empty (no columns and values for ESQL, no hits for KQL): both
  display methods return before the statement that sets the position to 0.
\<close>

theorem empty_response_keeps_scroll_position:
  "hscroll_pos (display_esql_results \<lparr>esql_columns = [], esql_values = []\<rparr>
      (new_results_table\<lparr>headers := replicate 10 ''c'', rows := [replicate 10 ''v''],
         hscroll_pos := 3\<rparr>)) = 3
   \<and> hscroll_pos (display_kql_results \<lparr>hits = [], hits_total = TotalDict (Some 0)\<rparr>
      (new_results_table\<lparr>headers := replicate 10 ''c'', rows := [replicate 10 ''v''],
         hscroll_pos := 3\<rparr>)) = 3
   \<and> hscroll_pos (display_esql_results \<lparr>esql_columns = [Some ''n''], esql_values = [[PInt 1]]\<rparr>
      (new_results_table\<lparr>headers := replicate 10 ''c'', rows := [replicate 10 ''v''],
         hscroll_pos := 3\<rparr>)) = 0"
  by (simp add: display_esql_results_def display_kql_results_def new_results_table_def
      Let_def update_display_frame)

section \<open>Facts about the session\<close>

lemma on_query_submit_current_from: "current_from (on_query_submit be query qt w) = 0"
  by (simp add: on_query_submit_def Let_def split: query_type.splits prod.splits sum.splits)

lemma on_query_submit_kql_calls:
  "calls (on_query_submit be query KQL w)
     = calls w @ [SearchCall (current_index w)
         (search_body query (current_size w) 0 None
            (Some (get_time_range be (current_preset w))) ''@timestamp'')]"
  by (simp add: on_query_submit_def search_kql_def Let_def split: prod.splits sum.splits)

lemma on_query_submit_esql_calls:
  "calls (on_query_submit be query ESQL w)
     = calls w @ [EsqlCall (esql_with_time_range query
          (Some (get_time_range be (current_preset w))) ''@timestamp'') ''json'']"
  by (simp add: on_query_submit_def query_esql_def Let_def split: prod.splits sum.splits)

lemma on_query_submit_status:
  "status_bar (on_query_submit be query qt w) \<noteq> Connected i p"
  by (simp add: on_query_submit_def Let_def error_status_def
      split: query_type.splits prod.splits sum.splits py_error.splits)

lemma enter_blank_ignored:
  "strip (query_edit w) = [] \<Longrightarrow> query_input_keypress be ''enter'' w = Returned None w"
  by (simp add: query_input_keypress_def Let_def)

lemma next_page_at_end_ignored:
  "\<not> current_from w + current_size w < total_hits (results_table w)
     \<Longrightarrow> handle_unhandled_input be ''n'' w = Continue w"
  by (simp add: handle_unhandled_input_def)

text \<open>
  C1. With 250 hits, a page size of 100 and the offset at 0, the key \<open>n\<close> moves the
  offset to 100 and calls \<open>_on_query_submit\<close>, which sets it back to 0 before it
  builds the request: the request that is sent has \<open>from = 0\<close> and the offset ends
  at 0, not at 100.
\<close>

theorem next_page_request_starts_at_zero:
  "current_from (new_main_window ''logs-*'' 100\<lparr>query_edit := ''status:200'', esql_radio := False,
        results_table := new_results_table\<lparr>total_hits := 250\<rparr>\<rparr>)
     + current_size (new_main_window ''logs-*'' 100\<lparr>query_edit := ''status:200'', esql_radio := False,
        results_table := new_results_table\<lparr>total_hits := 250\<rparr>\<rparr>)
     < total_hits (results_table (new_main_window ''logs-*'' 100\<lparr>query_edit := ''status:200'',
        esql_radio := False, results_table := new_results_table\<lparr>total_hits := 250\<rparr>\<rparr>))
   \<and> (\<exists>w'. handle_unhandled_input be ''n''
          (new_main_window ''logs-*'' 100\<lparr>query_edit := ''status:200'', esql_radio := False,
             results_table := new_results_table\<lparr>total_hits := 250\<rparr>\<rparr>) = Continue w'
        \<and> current_from w' = 0
        \<and> calls w' = [SearchCall ''logs-*''
             (search_body ''status:200'' 100 0 None
                (Some (get_time_range be ''Last 15 minutes'')) ''@timestamp'')]
        \<and> map_of (search_body ''status:200'' 100 0 None
                (Some (get_time_range be ''Last 15 minutes'')) ''@timestamp'') ''from'' = Some (JNum 0))"
proof -
  let ?w = "new_main_window ''logs-*'' 100\<lparr>query_edit := ''status:200'', esql_radio := False,
        results_table := new_results_table\<lparr>total_hits := 250\<rparr>\<rparr>"
  let ?w1 = "?w\<lparr>current_from := current_from ?w + current_size ?w\<rparr>"
  have a: "current_from ?w + current_size ?w < total_hits (results_table ?w)"
    by (simp add: new_main_window_def)
  have h: "handle_unhandled_input be ''n'' ?w = Continue (on_query_submit be ''status:200'' KQL ?w1)"
    using a by (simp add: handle_unhandled_input_def get_query_def Let_def)
  have c: "calls (on_query_submit be ''status:200'' KQL ?w1) = [SearchCall ''logs-*''
             (search_body ''status:200'' 100 0 None
                (Some (get_time_range be ''Last 15 minutes'')) ''@timestamp'')]"
    by (simp add: on_query_submit_kql_calls new_main_window_def DEFAULT_PRESET_def)
  have f: "map_of (search_body ''status:200'' 100 0 None
                (Some (get_time_range be ''Last 15 minutes'')) ''@timestamp'') ''from'' = Some (JNum 0)"
    by (simp add: search_body_def)
  show ?thesis
    using a h c f on_query_submit_current_from [of be "''status:200''" KQL ?w1] by blast
qed

text \<open>
  C4. With three spaces in the edit box (a text that strips to nothing), \<open>enter\<close>
  leaves the window as it is, but the key \<open>n\<close>, which tests the unstripped text,
  sends a search request and changes the status bar.
\<close>

theorem next_page_submits_blank_query:
  "strip ''   '' = []
   \<and> (\<exists>w'. handle_unhandled_input be ''n''
          (new_main_window ''logs-*'' 100\<lparr>query_edit := ''   '', esql_radio := False,
             results_table := new_results_table\<lparr>total_hits := 250\<rparr>\<rparr>) = Continue w'
        \<and> calls w' = [SearchCall ''logs-*''
             (search_body ''   '' 100 0 None
                (Some (get_time_range be ''Last 15 minutes'')) ''@timestamp'')]
        \<and> status_bar w' \<noteq> status_bar (new_main_window ''logs-*'' 100\<lparr>query_edit := ''   '',
             esql_radio := False, results_table := new_results_table\<lparr>total_hits := 250\<rparr>\<rparr>))
   \<and> query_input_keypress be ''enter''
          (new_main_window ''logs-*'' 100\<lparr>query_edit := ''   '', esql_radio := False,
             results_table := new_results_table\<lparr>total_hits := 250\<rparr>\<rparr>)
       = Returned None (new_main_window ''logs-*'' 100\<lparr>query_edit := ''   '', esql_radio := False,
             results_table := new_results_table\<lparr>total_hits := 250\<rparr>\<rparr>)"
proof -
  let ?w = "new_main_window ''logs-*'' 100\<lparr>query_edit := ''   '', esql_radio := False,
        results_table := new_results_table\<lparr>total_hits := 250\<rparr>\<rparr>"
  let ?w1 = "?w\<lparr>current_from := current_from ?w + current_size ?w\<rparr>"
  have s: "strip ''   '' = []" by code_simp
  have a: "current_from ?w + current_size ?w < total_hits (results_table ?w)"
    by (simp add: new_main_window_def)
  have h: "handle_unhandled_input be ''n'' ?w = Continue (on_query_submit be ''   '' KQL ?w1)"
    using a by (simp add: handle_unhandled_input_def get_query_def Let_def)
  have c: "calls (on_query_submit be ''   '' KQL ?w1) = [SearchCall ''logs-*''
             (search_body ''   '' 100 0 None
                (Some (get_time_range be ''Last 15 minutes'')) ''@timestamp'')]"
    by (simp add: on_query_submit_kql_calls new_main_window_def DEFAULT_PRESET_def)
  have st: "status_bar ?w = Connected ''logs-*'' DEFAULT_PRESET"
    by (simp add: new_main_window_def)
  have d: "status_bar (on_query_submit be ''   '' KQL ?w1) \<noteq> status_bar ?w"
    unfolding st by (rule on_query_submit_status)
  have e: "query_input_keypress be ''enter'' ?w = Returned None ?w"
    using s by (simp add: query_input_keypress_def Let_def)
  show ?thesis using s h c d e by blast
qed

text \<open>
  C3. A table that shows one column and one row keeps both after an ESQL response
  without columns and values, and keeps its hit count as well; after a KQL response
  without hits it keeps both and only the hit count is new. In both cases the list of
  rendered rows is cleared.
\<close>

theorem empty_response_keeps_old_table:
  "headers (display_esql_results \<lparr>esql_columns = [], esql_values = []\<rparr>
      (new_results_table\<lparr>headers := [''a''], rows := [[''1'']], total_hits := 1\<rparr>)) = [''a'']
   \<and> rows (display_esql_results \<lparr>esql_columns = [], esql_values = []\<rparr>
      (new_results_table\<lparr>headers := [''a''], rows := [[''1'']], total_hits := 1\<rparr>)) = [[''1'']]
   \<and> total_hits (display_esql_results \<lparr>esql_columns = [], esql_values = []\<rparr>
      (new_results_table\<lparr>headers := [''a''], rows := [[''1'']], total_hits := 1\<rparr>)) = 1
   \<and> list_walker (display_esql_results \<lparr>esql_columns = [], esql_values = []\<rparr>
      (new_results_table\<lparr>headers := [''a''], rows := [[''1'']], total_hits := 1\<rparr>)) = []
   \<and> headers (display_kql_results \<lparr>hits = [], hits_total = TotalDict (Some 0)\<rparr>
      (new_results_table\<lparr>headers := [''a''], rows := [[''1'']], total_hits := 1\<rparr>)) = [''a'']
   \<and> rows (display_kql_results \<lparr>hits = [], hits_total = TotalDict (Some 0)\<rparr>
      (new_results_table\<lparr>headers := [''a''], rows := [[''1'']], total_hits := 1\<rparr>)) = [[''1'']]
   \<and> total_hits (display_kql_results \<lparr>hits = [], hits_total = TotalDict (Some 0)\<rparr>
      (new_results_table\<lparr>headers := [''a''], rows := [[''1'']], total_hits := 1\<rparr>)) = 0
   \<and> list_walker (display_kql_results \<lparr>hits = [], hits_total = TotalDict (Some 0)\<rparr>
      (new_results_table\<lparr>headers := [''a''], rows := [[''1'']], total_hits := 1\<rparr>)) = []"
  by (simp add: display_esql_results_def display_kql_results_def new_results_table_def)

section \<open>Facts about the rows built from hits\<close>

lemma two_members:
  assumes "a \<in> set xs" and "b \<in> set xs" and "a \<noteq> b"
  shows "2 \<le> length xs"
proof -
  have "{a, b} \<subseteq> set xs" using assms by simp
  then have "card {a, b} \<le> card (set xs)" by (simp add: card_mono)
  also have "\<dots> \<le> length xs" by (rule card_length)
  finally show ?thesis using assms(3) by simp
qed

lemma kql_headers_length: "2 \<le> length (kql_headers first_hit)"
proof -
  define w where "w = (if ''_id'' \<notin> set (map fst (hit_source first_hit))
                       then ''_id'' # map fst (hit_source first_hit)
                       else map fst (hit_source first_hit))"
  have id: "''_id'' \<in> set w" by (simp add: w_def)
  have k: "kql_headers first_hit
      = (if ''_index'' \<notin> set w then take 1 w @ [''_index''] @ drop 1 w else w)"
    by (simp add: kql_headers_def Let_def w_def)
  show ?thesis
  proof (cases "''_index'' \<in> set w")
    case True
    have "2 \<le> length w" by (rule two_members [OF id True]) simp
    with True k show ?thesis by simp
  next
    case False
    from id have "0 < length w" by (rule length_pos_if_in_set)
    then have l: "length (take 1 w @ [''_index''] @ drop 1 w) = length w + 1"
      by (cases w) simp_all
    from False k have "kql_headers first_hit = take 1 w @ [''_index''] @ drop 1 w"
      by simp
    then have "length (kql_headers first_hit) = length w + 1"
      using l by (simp only:)
    with \<open>0 < length w\<close> show ?thesis by arith
  qed
qed

lemma kql_row_length: "2 \<le> length hs \<Longrightarrow> length (kql_row hs h) = length hs"
  by (simp add: kql_row_def)

lemma kql_row_one_cell_per_column:
  "length (kql_row (kql_headers first_hit) h) = length (kql_headers first_hit)"
  by (rule kql_row_length) (rule kql_headers_length)

lemma kql_row_id_index:
  "kql_row hs h ! 0 = cell_or_empty (hit_id h)" "kql_row hs h ! 1 = cell_or_empty (hit_index h)"
  by (simp_all add: kql_row_def)

lemma kql_headers_plain:
  assumes "''_id'' \<notin> fst ` set (hit_source first_hit)" and "''_index'' \<notin> fst ` set (hit_source first_hit)"
  shows "kql_headers first_hit = ''_id'' # ''_index'' # map fst (hit_source first_hit)"
  using assms by (simp add: kql_headers_def Let_def)

lemma kql_row_plain:
  assumes "''_id'' \<notin> fst ` set (hit_source first_hit)" and "''_index'' \<notin> fst ` set (hit_source first_hit)"
  shows "kql_row (kql_headers first_hit) h
       = cell_or_empty (hit_id h) # cell_or_empty (hit_index h)
         # map (\<lambda>header. cell_or_empty (map_of (hit_source h) header)) (map fst (hit_source first_hit))"
  using assms by (simp add: kql_headers_plain kql_row_def)

text \<open>
  C10. Every row has one cell per header and starts with the hit's \<open>_id\<close> and
  \<open>_index\<close> (the lemmas above), and when the first hit's source has no field named
  \<open>_id\<close> or \<open>_index\<close> a missing field gives an empty cell. When the first hit's
  source has a field \<open>_id\<close>, the headers are \<open>a, _index, _id\<close> while the rows
  still start with the hit's \<open>_id\<close> and \<open>_index\<close>: a second hit without the field
  \<open>a\<close> shows its \<open>_id\<close> under \<open>a\<close>, not an empty cell.
\<close>

theorem kql_row_misaligned_with_id_in_source:
  "kql_headers \<lparr>hit_id = Some (PStr ''1''), hit_index = Some (PStr ''logs''),
                 hit_source = [(''a'', PStr ''x''), (''_id'', PStr ''s'')]\<rparr>
     = [''a'', ''_index'', ''_id'']
   \<and> map_of (hit_source \<lparr>hit_id = Some (PStr ''2''), hit_index = Some (PStr ''logs''),
                 hit_source = [(''_id'', PStr ''t'')]\<rparr>) ''a'' = None
   \<and> kql_row [''a'', ''_index'', ''_id'']
        \<lparr>hit_id = Some (PStr ''2''), hit_index = Some (PStr ''logs''), hit_source = [(''_id'', PStr ''t'')]\<rparr>
     = [''2'', ''logs'', ''t'']
   \<and> headers (display_kql_results
        \<lparr>hits = [\<lparr>hit_id = Some (PStr ''1''), hit_index = Some (PStr ''logs''),
                   hit_source = [(''a'', PStr ''x''), (''_id'', PStr ''s'')]\<rparr>,
                 \<lparr>hit_id = Some (PStr ''2''), hit_index = Some (PStr ''logs''),
                   hit_source = [(''_id'', PStr ''t'')]\<rparr>],
          hits_total = TotalDict (Some 2)\<rparr> new_results_table)
     = [''a'', ''_index'', ''_id'']
   \<and> rows (display_kql_results
        \<lparr>hits = [\<lparr>hit_id = Some (PStr ''1''), hit_index = Some (PStr ''logs''),
                   hit_source = [(''a'', PStr ''x''), (''_id'', PStr ''s'')]\<rparr>,
                 \<lparr>hit_id = Some (PStr ''2''), hit_index = Some (PStr ''logs''),
                   hit_source = [(''_id'', PStr ''t'')]\<rparr>],
          hits_total = TotalDict (Some 2)\<rparr> new_results_table)
     = [[''1'', ''logs'', ''s''], [''2'', ''logs'', ''t'']]"
  by code_simp

end
